theory Spec2Isabelle
  imports Main "HOL-Library.Word"
begin

unbundle bit_operations_syntax

section \<open>The two MCP search servers: fofa_search and hunter_search\<close>

text \<open>
  The repository holds two Go programs of the same shape. Each registers one tool whose
  handler fills in default arguments, builds one GET request, decodes the JSON reply and
  renders a text report. Go's \<open>string\<close> is a byte sequence, modelled as \<open>string\<close>
  (a list of 8-bit characters); text outside ASCII is written as its UTF-8 bytes. Go's
  \<open>int\<close> is modelled as \<open>int\<close>: the programs never do arithmetic on the
  page, size or count values, so no wrap-around can occur.
\<close>

subsection \<open>Go's standard library, as far as the two programs call it\<close>

text \<open>\<open>fmt.Sprintf("%d", n)\<close>: the decimal digits of \<open>n\<close>, with a minus sign below zero.\<close>

definition digit :: "nat \<Rightarrow> char" where
  "digit d = ''0123456789'' ! d"

function decimal :: "nat \<Rightarrow> string" where
  "decimal n = (if n < 10 then [digit n] else decimal (n div 10) @ [digit (n mod 10)])"
  by pat_completeness auto
termination
  by (relation "measure id") auto

declare decimal.simps [simp del]

definition Sprintf_d :: "int \<Rightarrow> string" where
  "Sprintf_d n = (if n < 0 then CHR ''-'' # decimal (nat (- n)) else decimal (nat n))"

text \<open>\<open>strings.Join(elems, sep)\<close>.\<close>

fun Join :: "string list \<Rightarrow> string \<Rightarrow> string" where
  "Join [] sep = []"
| "Join [e] sep = e"
| "Join (e # es) sep = e @ sep @ Join es sep"

text \<open>
  \<open>encoding/base64\<close>: \<open>Encoding.EncodeToString\<close> for an alphabet of 64 characters with
  the standard padding character. Three source bytes make one 24-bit value, cut into
  four 6-bit indices into the alphabet; a last group of one or two bytes is padded.
  The value is a Go \<open>uint\<close>; it stays below \<open>2 ^ 24\<close>, so \<open>nat\<close> holds it exactly.
\<close>

definition encodeStd :: string where
  "encodeStd = ''ABCDEFGHIJKLMNOPQRSTUVWXYZabcdefghijklmnopqrstuvwxyz0123456789+/''"

definition encodeURL :: string where
  "encodeURL = ''ABCDEFGHIJKLMNOPQRSTUVWXYZabcdefghijklmnopqrstuvwxyz0123456789-_''"

definition StdPadding :: char where
  "StdPadding = CHR ''=''"

fun EncodeToString :: "string \<Rightarrow> string \<Rightarrow> string" where
  "EncodeToString enc (s0 # s1 # s2 # src) =
     (let val = push_bit 16 (of_char s0 :: nat) OR push_bit 8 (of_char s1) OR of_char s2
      in enc ! (drop_bit 18 val AND 0x3F) # enc ! (drop_bit 12 val AND 0x3F) #
         enc ! (drop_bit 6 val AND 0x3F) # enc ! (val AND 0x3F) # EncodeToString enc src)"
| "EncodeToString enc [s0, s1] =
     (let val = push_bit 16 (of_char s0 :: nat) OR push_bit 8 (of_char s1)
      in [enc ! (drop_bit 18 val AND 0x3F), enc ! (drop_bit 12 val AND 0x3F),
          enc ! (drop_bit 6 val AND 0x3F), StdPadding])"
| "EncodeToString enc [s0] =
     (let val = push_bit 16 (of_char s0 :: nat)
      in [enc ! (drop_bit 18 val AND 0x3F), enc ! (drop_bit 12 val AND 0x3F),
          StdPadding, StdPadding])"
| "EncodeToString enc [] = []"

text \<open>
  The decoder a backend applies to the parameter (RFC 4648 with padding, the inverse
  scheme of the encoder above; it is not part of the repository). \<open>decodeMap\<close> is the
  position of a character in the alphabet; four characters give back one 24-bit value.
\<close>

fun decodeMap :: "string \<Rightarrow> char \<Rightarrow> nat option" where
  "decodeMap [] c = None"
| "decodeMap (e # enc) c = (if e = c then Some 0 else map_option Suc (decodeMap enc c))"

definition quantum :: "nat \<Rightarrow> nat \<Rightarrow> nat \<Rightarrow> nat \<Rightarrow> nat" where
  "quantum d0 d1 d2 d3 = push_bit 18 d0 OR push_bit 12 d1 OR push_bit 6 d2 OR d3"

fun DecodeString :: "string \<Rightarrow> string \<Rightarrow> string option" where
  "DecodeString enc (c0 # c1 # c2 # c3 # src) =
     (case (decodeMap enc c0, decodeMap enc c1) of
        (Some d0, Some d1) \<Rightarrow>
          if c2 = StdPadding then
            (if c3 = StdPadding \<and> src = []
             then Some [char_of (drop_bit 16 (quantum d0 d1 0 0))] else None)
          else (case decodeMap enc c2 of
             None \<Rightarrow> None
           | Some d2 \<Rightarrow>
               if c3 = StdPadding then
                 (if src = []
                  then Some [char_of (drop_bit 16 (quantum d0 d1 d2 0)),
                             char_of (drop_bit 8 (quantum d0 d1 d2 0))]
                  else None)
               else (case decodeMap enc c3 of
                  None \<Rightarrow> None
                | Some d3 \<Rightarrow>
                    map_option
                      (\<lambda>rest. char_of (drop_bit 16 (quantum d0 d1 d2 d3)) #
                              char_of (drop_bit 8 (quantum d0 d1 d2 d3)) #
                              char_of (quantum d0 d1 d2 d3) # rest)
                      (DecodeString enc src)))
      | _ \<Rightarrow> None)"
| "DecodeString enc [] = Some []"
| "DecodeString enc _ = None"

text \<open>
  \<open>net/url\<close>: \<open>QueryEscape\<close> keeps letters, digits and \<open>- _ . ~\<close>, writes a space as
  \<open>+\<close> and every other byte as \<open>%XX\<close> in upper-case hexadecimal.
\<close>

definition upperhex :: string where
  "upperhex = ''0123456789ABCDEF''"

definition shouldEscape :: "char \<Rightarrow> bool" where
  "shouldEscape c =
     (let b = (of_char c :: nat) in
      if (97 \<le> b \<and> b \<le> 122) \<or> (65 \<le> b \<and> b \<le> 90) \<or> (48 \<le> b \<and> b \<le> 57) then False
      else if c = CHR ''-'' \<or> c = CHR ''_'' \<or> c = CHR ''.'' \<or> c = CHR ''~'' then False
      else True)"

fun QueryEscape :: "string \<Rightarrow> string" where
  "QueryEscape [] = []"
| "QueryEscape (c # s) =
     (if shouldEscape c then
        (if c = CHR '' '' then CHR ''+'' # QueryEscape s
         else CHR ''%'' # upperhex ! (drop_bit 4 (of_char c :: nat)) #
              upperhex ! ((of_char c :: nat) AND 15) # QueryEscape s)
      else c # QueryEscape s)"

text \<open>
  \<open>url.Values\<close> is a map from a key to its list of values, kept here as an association
  list with one entry per key. \<open>Add\<close> appends to the key's list. \<open>Encode\<close> walks the
  keys in sorted order (Go compares strings byte by byte) and writes \<open>key=value\<close>
  pairs, with \<open>&\<close> before every pair but the first.
\<close>

type_synonym Values = "(string \<times> string list) list"

fun Values_Add :: "Values \<Rightarrow> string \<Rightarrow> string \<Rightarrow> Values" where
  "Values_Add [] key val = [(key, [val])]"
| "Values_Add ((k, vs) # v) key val =
     (if k = key then (k, vs @ [val]) # v else (k, vs) # Values_Add v key val)"

fun Values_get :: "Values \<Rightarrow> string \<Rightarrow> string list" where
  "Values_get [] key = []"
| "Values_get ((k, vs) # v) key = (if k = key then vs else Values_get v key)"

fun string_less :: "string \<Rightarrow> string \<Rightarrow> bool" where
  "string_less [] [] = False"
| "string_less [] (y # ys) = True"
| "string_less (x # xs) [] = False"
| "string_less (x # xs) (y # ys) =
     ((of_char x :: nat) < of_char y \<or> (x = y \<and> string_less xs ys))"

fun insert_sorted :: "string \<Rightarrow> string list \<Rightarrow> string list" where
  "insert_sorted k [] = [k]"
| "insert_sorted k (x # xs) = (if string_less x k then x # insert_sorted k xs else k # x # xs)"

definition sort_strings :: "string list \<Rightarrow> string list" where
  "sort_strings ks = foldr insert_sorted ks []"

fun write_values :: "string \<Rightarrow> string \<Rightarrow> string list \<Rightarrow> string" where
  "write_values buf keyEscaped [] = buf"
| "write_values buf keyEscaped (v # vs) =
     write_values ((if buf \<noteq> [] then buf @ ''&'' else buf) @ keyEscaped @ ''='' @ QueryEscape v)
       keyEscaped vs"

fun write_keys :: "Values \<Rightarrow> string \<Rightarrow> string list \<Rightarrow> string" where
  "write_keys v buf [] = buf"
| "write_keys v buf (k # keys) =
     write_keys v (write_values buf (QueryEscape k) (Values_get v k)) keys"

definition Values_Encode :: "Values \<Rightarrow> string" where
  "Values_Encode v = (if v = [] then [] else write_keys v [] (sort_strings (map fst v)))"

text \<open>
  \<open>fmt.Errorf(format)\<close> called with a format string and no operands, as both programs
  call it. This is \<open>doPrintf\<close> of package \<open>fmt\<close> with an empty operand list: text up
  to a \<open>%\<close> is copied; after a \<open>%\<close> come flags, an optional argument index \<open>[n]\<close>, a
  width, a precision and the verb. With no operand to print, \<open>%%\<close> writes \<open>%\<close>, a
  format that ends before its verb writes \<open>%!(NOVERB)\<close>, any other verb writes
  \<open>%!verb(MISSING)\<close> (or \<open>%!verb(BADINDEX)\<close> after an argument index), and a \<open>*\<close>
  width or precision writes \<open>%!(BADWIDTH)\<close> or \<open>%!(BADPREC)\<close>.
\<close>

definition percentBangString :: string where "percentBangString = ''%!''"
definition missingString :: string where "missingString = ''(MISSING)''"
definition badIndexString :: string where "badIndexString = ''(BADINDEX)''"
definition noVerbString :: string where "noVerbString = ''%!(NOVERB)''"
definition badWidthString :: string where "badWidthString = ''%!(BADWIDTH)''"
definition badPrecString :: string where "badPrecString = ''%!(BADPREC)''"

definition is_flag :: "char \<Rightarrow> bool" where
  "is_flag c = (c = CHR ''#'' \<or> c = CHR ''0'' \<or> c = CHR ''+'' \<or> c = CHR ''-'' \<or> c = CHR '' '')"

definition is_digit :: "char \<Rightarrow> bool" where
  "is_digit c = (48 \<le> (of_char c :: nat) \<and> (of_char c :: nat) \<le> 57)"

definition tooLarge :: "nat \<Rightarrow> bool" where
  "tooLarge x = (1000000 < x)"

text \<open>
  \<open>parsenum\<close> reads decimal digits. It answers whether it read a number, and the text
  that follows it; when the number grows too large it gives up and skips to the end.
\<close>

fun parsenum_loop :: "nat \<Rightarrow> bool \<Rightarrow> string \<Rightarrow> bool \<times> string" where
  "parsenum_loop num isnum [] = (isnum, [])"
| "parsenum_loop num isnum (c # s) =
     (if is_digit c then
        (if tooLarge num then (False, [])
         else parsenum_loop (num * 10 + ((of_char c :: nat) - 48)) True s)
      else (isnum, c # s))"

definition parsenum :: "string \<Rightarrow> bool \<times> string" where
  "parsenum s = parsenum_loop 0 False s"

text \<open>
  \<open>parseArgNumber\<close> is called on text that starts with \<open>[\<close>: the number of bytes to skip,
  and whether a well-formed index \<open>[n]\<close> was read. (With no operands every index is out
  of range, so its value plays no part.)
\<close>

definition parseArgNumber :: "string \<Rightarrow> nat \<times> bool" where
  "parseArgNumber format =
     (if length format < 3 then (1, False)
      else
        (let inner = takeWhile (\<lambda>c. c \<noteq> CHR '']'') (tl format) in
         if length inner = length (tl format) then (1, False)
         else
           (case parsenum inner of
              (ok, rest) \<Rightarrow>
                if \<not> ok \<or> rest \<noteq> [] then (length inner + 2, False)
                else (length inner + 2, True))))"

text \<open>\<open>argNumber\<close>: the new \<open>goodArgNum\<close>, the text that follows, and \<open>found\<close>.\<close>

definition argNumber :: "bool \<Rightarrow> string \<Rightarrow> bool \<times> string \<times> bool" where
  "argNumber goodArgNum format =
     (case format of
        [] \<Rightarrow> (goodArgNum, format, False)
      | c # _ \<Rightarrow>
          if c \<noteq> CHR ''['' then (goodArgNum, format, False)
          else (case parseArgNumber format of (wid, ok) \<Rightarrow> (False, drop wid format, ok)))"

text \<open>
  \<open>utf8.DecodeRuneInString\<close> on the verb: the number of bytes of a well-formed UTF-8
  sequence at the head of the text, or \<open>None\<close> where Go reads \<open>RuneError\<close> of width 1.
\<close>

definition in_range :: "nat \<Rightarrow> nat \<Rightarrow> char \<Rightarrow> bool" where
  "in_range lo hi c = (lo \<le> (of_char c :: nat) \<and> (of_char c :: nat) \<le> hi)"

definition first_byte :: "char \<Rightarrow> (nat \<times> nat \<times> nat) option" where
  "first_byte c =
     (let b = (of_char c :: nat) in
      if b < 0x80 then Some (1, 0, 0)
      else if b < 0xC2 then None
      else if b \<le> 0xDF then Some (2, 0x80, 0xBF)
      else if b = 0xE0 then Some (3, 0xA0, 0xBF)
      else if b = 0xED then Some (3, 0x80, 0x9F)
      else if b \<le> 0xEF then Some (3, 0x80, 0xBF)
      else if b = 0xF0 then Some (4, 0x90, 0xBF)
      else if b \<le> 0xF3 then Some (4, 0x80, 0xBF)
      else if b = 0xF4 then Some (4, 0x80, 0x8F)
      else None)"

definition DecodeRune_width :: "string \<Rightarrow> nat option" where
  "DecodeRune_width s =
     (case s of
        [] \<Rightarrow> None
      | c # t \<Rightarrow>
          (case first_byte c of
             None \<Rightarrow> None
           | Some (sz, lo, hi) \<Rightarrow>
               if sz = 1 then Some 1
               else if length s < sz then None
               else if \<not> in_range lo hi (s ! 1) then None
               else if sz = 2 then Some 2
               else if \<not> in_range 0x80 0xBF (s ! 2) then None
               else if sz = 3 then Some 3
               else if \<not> in_range 0x80 0xBF (s ! 3) then None
               else Some 4))"

text \<open>The bytes written for the verb, and the text after it (the text is not empty).\<close>

definition read_verb :: "string \<Rightarrow> string \<times> string" where
  "read_verb s =
     (case DecodeRune_width s of
        None \<Rightarrow> ([CHR 0xEF, CHR 0xBF, CHR 0xBD], drop 1 s)
      | Some n \<Rightarrow> (take n s, drop n s))"

text \<open>
  One directive: the text after a \<open>%\<close>, in the order of \<open>doPrintf\<close>. The result is what
  is written and the text at which the loop goes on.
\<close>

definition width_step :: "bool \<Rightarrow> bool \<Rightarrow> string \<Rightarrow> string \<times> bool \<times> string \<times> bool" where
  "width_step goodArgNum afterIndex format =
     (if format \<noteq> [] \<and> hd format = CHR ''*'' then
        (badWidthString, goodArgNum, tl format, False)
      else
        (case parsenum format of
           (widPresent, r) \<Rightarrow>
             ([], (if afterIndex \<and> widPresent then False else goodArgNum), r, afterIndex)))"

definition precision_step ::
  "bool \<Rightarrow> bool \<Rightarrow> string \<Rightarrow> string \<times> bool \<times> string \<times> bool" where
  "precision_step goodArgNum afterIndex format =
     (if format \<noteq> [] \<and> hd format = CHR ''.'' then
        (case argNumber (if afterIndex then False else goodArgNum) (tl format) of
           (good, r1, found) \<Rightarrow>
             if r1 \<noteq> [] \<and> hd r1 = CHR ''*'' then (badPrecString, good, tl r1, False)
             else ([], good, snd (parsenum r1), found))
      else ([], goodArgNum, format, afterIndex))"

definition verb_step :: "string \<Rightarrow> bool \<Rightarrow> string \<Rightarrow> string \<times> string" where
  "verb_step written goodArgNum format =
     (case format of
        [] \<Rightarrow> (written @ noVerbString, [])
      | _ # _ \<Rightarrow>
          (case read_verb format of
             (verb, rest) \<Rightarrow>
               if verb = ''%'' then (written @ ''%'', rest)
               else if \<not> goodArgNum then
                 (written @ percentBangString @ verb @ badIndexString, rest)
               else (written @ percentBangString @ verb @ missingString, rest)))"

definition directive :: "string \<Rightarrow> string \<times> string" where
  "directive format =
     (case argNumber True (dropWhile is_flag format) of
        (good1, f1, after1) \<Rightarrow>
          (case width_step good1 after1 f1 of
             (w1, good2, f2, after2) \<Rightarrow>
               (case precision_step good2 after2 f2 of
                  (w2, good3, f3, after3) \<Rightarrow>
                    (if \<not> after3 then
                       (case argNumber good3 f3 of
                          (good4, f4, after4) \<Rightarrow> verb_step (w1 @ w2) good4 f4)
                     else verb_step (w1 @ w2) good3 f3))))"

text \<open>
  Every step leaves text no longer than it found, so the loop of \<open>doPrintf\<close> ends.
\<close>

lemma parsenum_loop_length: "length (snd (parsenum_loop num isnum s)) \<le> length s"
  by (induction num isnum s rule: parsenum_loop.induct) auto

lemma parsenum_length: "length (snd (parsenum s)) \<le> length s"
  by (simp add: parsenum_def parsenum_loop_length)

lemma argNumber_length: "length (fst (snd (argNumber g s))) \<le> length s"
  by (auto simp add: argNumber_def split: list.splits prod.splits)

lemma width_step_length: "length (fst (snd (snd (width_step g a s)))) \<le> length s"
proof (cases "s \<noteq> [] \<and> hd s = CHR ''*''")
  case True
  then show ?thesis by (simp add: width_step_def)
next
  case False
  then show ?thesis
    using parsenum_length [of s] by (auto simp add: width_step_def split: prod.splits)
qed

lemma precision_step_length: "length (fst (snd (snd (precision_step g a s)))) \<le> length s"
proof (cases "s \<noteq> [] \<and> hd s = CHR ''.''")
  case True
  obtain good r1 found where a: "argNumber (if a then False else g) (tl s) = (good, r1, found)"
    by (cases "argNumber (if a then False else g) (tl s)") auto
  have r1: "length r1 \<le> length (tl s)"
    using argNumber_length [of "if a then False else g" "tl s"] a by simp
  show ?thesis
  proof (cases "r1 \<noteq> [] \<and> hd r1 = CHR ''*''")
    case star: True
    have "precision_step g a s = (badPrecString, good, tl r1, False)"
      using True a star by (simp add: precision_step_def)
    with r1 show ?thesis by simp
  next
    case nostar: False
    have "precision_step g a s = ([], good, snd (parsenum r1), found)"
      using True a nostar by (auto simp add: precision_step_def)
    with r1 parsenum_length [of r1] show ?thesis by simp
  qed
next
  case False
  then have "precision_step g a s = ([], g, s, a)"
    by (auto simp add: precision_step_def)
  then show ?thesis by simp
qed

lemma verb_step_length: "length (snd (verb_step w g s)) \<le> length s"
  by (auto simp add: verb_step_def read_verb_def split: list.splits prod.splits option.splits)

lemma directive_length: "length (snd (directive s)) \<le> length s"
proof -
  obtain good1 f1 after1 where 1: "argNumber True (dropWhile is_flag s) = (good1, f1, after1)"
    by (cases "argNumber True (dropWhile is_flag s)") auto
  obtain w1 good2 f2 after2 where 2: "width_step good1 after1 f1 = (w1, good2, f2, after2)"
    by (cases "width_step good1 after1 f1") auto
  obtain w2 good3 f3 after3 where 3: "precision_step good2 after2 f2 = (w2, good3, f3, after3)"
    by (cases "precision_step good2 after2 f2") auto
  obtain good4 f4 after4 where 4: "argNumber good3 f3 = (good4, f4, after4)"
    by (cases "argNumber good3 f3") auto
  have "length (dropWhile is_flag s) \<le> length s" by (rule length_dropWhile_le)
  moreover have "length f1 \<le> length (dropWhile is_flag s)"
    using argNumber_length [of True "dropWhile is_flag s"] 1 by simp
  moreover have "length f2 \<le> length f1"
    using width_step_length [of good1 after1 f1] 2 by simp
  moreover have "length f3 \<le> length f2"
    using precision_step_length [of good2 after2 f2] 3 by simp
  moreover have "length f4 \<le> length f3"
    using argNumber_length [of good3 f3] 4 by simp
  moreover have "length (snd (verb_step (w1 @ w2) good4 f4)) \<le> length f4"
    by (rule verb_step_length)
  moreover have "length (snd (verb_step (w1 @ w2) good3 f3)) \<le> length f3"
    by (rule verb_step_length)
  ultimately show ?thesis
    by (simp add: directive_def 1 2 3 4)
qed

function doPrintf :: "string \<Rightarrow> string" where
  "doPrintf [] = []"
| "doPrintf (c # format) =
     (if c \<noteq> CHR ''%'' then c # doPrintf format
      else (case directive format of (written, rest) \<Rightarrow> written @ doPrintf rest))"
  by pat_completeness auto
termination
proof (relation "measure length")
  show "wf (measure length)" by simp
next
  fix c :: char and format :: string
  show "(format, c # format) \<in> measure length" by simp
next
  fix c :: char and format written rest :: string
  assume "(written, rest) = directive format"
  then have "rest = snd (directive format)" by (metis snd_conv)
  then show "(rest, c # format) \<in> measure length"
    using directive_length [of format] by simp
qed

text \<open>
  \<open>fmt.Errorf(format)\<close> with no operands: the message of the error it returns.
\<close>

definition Errorf :: "string \<Rightarrow> string" where
  "Errorf format = doPrintf format"

subsection \<open>Values the programs receive from outside\<close>

text \<open>
  A Go \<open>error\<close> is kept by where it comes from, with the text its \<open>Error()\<close> method
  returns: \<open>http.Get\<close>, \<open>ioutil.ReadAll\<close>, \<open>json.Unmarshal\<close>, or \<open>fmt.Errorf\<close>.
\<close>

datatype go_error =
    Get_error string
  | ReadAll_error string
  | Unmarshal_error string
  | Errorf_error string

fun Error_text :: "go_error \<Rightarrow> string" where
  "Error_text (Get_error m) = m"
| "Error_text (ReadAll_error m) = m"
| "Error_text (Unmarshal_error m) = m"
| "Error_text (Errorf_error m) = m"

text \<open>
  One GET exchange, as the program sees it through the library: \<open>http.Get\<close> fails, or
  it returns a response with a status code whose body either cannot be read, or is
  read and handed to \<open>json.Unmarshal\<close>, which reports an error or fills the result
  struct \<open>'r\<close>. The network is a function from the request URL to such an exchange.
\<close>

datatype 'r body =
    ReadAll_fails string
  | Unmarshal_fails string
  | Unmarshal_fills 'r

datatype 'r exchange =
    Get_fails string
  | Response int "'r body"

text \<open>
  A value of type \<open>interface{}\<close> as \<open>json.Unmarshal\<close> stores it: nil, bool, float64
  (kept as its 64 bits; no arithmetic on it is modelled), string, slice, or map.
\<close>

datatype go_value =
    V_nil
  | V_bool bool
  | V_float64 "64 word"
  | V_string string
  | V_slice "go_value list"
  | V_map "(string \<times> go_value) list"

text \<open>
  How \<open>fmt\<close> prints an operand under \<open>%s\<close> and under \<open>%v\<close>. A string is printed as
  it is under both. For the other dynamic types (which need the printing of floating
  point numbers and of nested values) the two printers are parameters of the model.
\<close>

record printer =
  print_s :: "go_value \<Rightarrow> string"
  print_v :: "go_value \<Rightarrow> string"

fun operand_s :: "printer \<Rightarrow> go_value \<Rightarrow> string" where
  "operand_s pr (V_string s) = s"
| "operand_s pr v = print_s pr v"

fun operand_v :: "printer \<Rightarrow> go_value \<Rightarrow> string" where
  "operand_v pr (V_string s) = s"
| "operand_v pr v = print_v pr v"

text \<open>
  What a tool handler does: it panics, or returns \<open>(nil, err)\<close>, or returns a
  response holding one text.
\<close>

datatype go_panic = nil_dereference | interface_conversion

datatype tool_result =
    Panics go_panic
  | Fails go_error
  | ToolResponse string

subsection \<open>Argument structs and the defaulting step of the handlers\<close>

record FofaSearchArguments =
  fa_Query :: string
  fa_Page :: int
  fa_Size :: int
  fa_Fields :: string

record HunterSearchArguments =
  ha_Query :: string
  ha_Page :: int
  ha_Size :: int
  ha_IsWeb :: int
  ha_StartTime :: string
  ha_EndTime :: string

text \<open>
  mcp_fofa_server.go, lines 104-109: two independent tests against the zero value.
\<close>

definition fofa_defaults :: "FofaSearchArguments \<Rightarrow> FofaSearchArguments" where
  "fofa_defaults arguments =
     (let a1 = (if fa_Page arguments = 0 then arguments\<lparr>fa_Page := 1\<rparr> else arguments);
          a2 = (if fa_Size a1 = 0 then a1\<lparr>fa_Size := 50\<rparr> else a1)
      in a2)"

text \<open>
  The hunter server (part_000), lines 114-122: the same for Page and Size (default 20),
  and IsWeb.
\<close>

definition hunter_defaults :: "HunterSearchArguments \<Rightarrow> HunterSearchArguments" where
  "hunter_defaults arguments =
     (let a1 = (if ha_Page arguments = 0 then arguments\<lparr>ha_Page := 1\<rparr> else arguments);
          a2 = (if ha_Size a1 = 0 then a1\<lparr>ha_Size := 20\<rparr> else a1);
          a3 = (if ha_IsWeb a2 = 0 then a2\<lparr>ha_IsWeb := 1\<rparr> else a2)
      in a3)"

subsection \<open>mcp_fofa_server.go\<close>

record FofaClient =
  fc_Email :: string
  fc_Key :: string
  fc_BaseURL :: string

definition NewFofaClient :: "string \<Rightarrow> string \<Rightarrow> FofaClient" where
  "NewFofaClient email key =
     \<lparr>fc_Email = email, fc_Key = key, fc_BaseURL = ''https://fofa.info/api/v1''\<rparr>"

record fofa_SearchResult =
  fr_Error :: bool
  fr_ErrMsg :: string
  fr_Mode :: string
  fr_Page :: int
  fr_Size :: int
  fr_Results :: "string list list"

definition base64Encode :: "string \<Rightarrow> string" where
  "base64Encode s = EncodeToString encodeStd s"

text \<open>Lines 46-52: the six parameters, every one added unconditionally.\<close>

definition fofa_params :: "FofaClient \<Rightarrow> string \<Rightarrow> int \<Rightarrow> int \<Rightarrow> string \<Rightarrow> Values" where
  "fofa_params fc query page size' fields' =
     (let params = [];
          params = Values_Add params ''qbase64'' (base64Encode query);
          params = Values_Add params ''email'' (fc_Email fc);
          params = Values_Add params ''key'' (fc_Key fc);
          params = Values_Add params ''page'' (Sprintf_d page);
          params = Values_Add params ''size'' (Sprintf_d size');
          params = Values_Add params ''fields'' fields'
      in params)"

definition fofa_url :: "FofaClient \<Rightarrow> string \<Rightarrow> int \<Rightarrow> int \<Rightarrow> string \<Rightarrow> string" where
  "fofa_url fc query page size' fields' =
     fc_BaseURL fc @ ''/search/all?'' @ Values_Encode (fofa_params fc query page size' fields')"

text \<open>
  \<open>FofaClient.Search\<close>, lines 45-72. The status code of the response is never read.
\<close>

definition FofaClient_Search ::
  "(string \<Rightarrow> fofa_SearchResult exchange) \<Rightarrow> FofaClient \<Rightarrow> string \<Rightarrow> int \<Rightarrow> int \<Rightarrow> string
     \<Rightarrow> go_error + fofa_SearchResult" where
  "FofaClient_Search net fc query page size' fields' =
     (case net (fofa_url fc query page size' fields') of
        Get_fails err \<Rightarrow> Inl (Get_error err)
      | Response status b \<Rightarrow>
          (case b of
             ReadAll_fails err \<Rightarrow> Inl (ReadAll_error err)
           | Unmarshal_fails err \<Rightarrow> Inl (Unmarshal_error err)
           | Unmarshal_fills result \<Rightarrow> Inr result))"

text \<open>
  The report, lines 119-125: the header \<open>"\<dots>(\<dots>%d\<dots>):\n"\<close> (its Chinese text as
  UTF-8 bytes) with the number of result rows, then one line per row, the row's fields
  joined by \<open>" | "\<close>.
\<close>

definition header_before :: string where
  "header_before =
     [CHR 0xE6, CHR 0x90, CHR 0x9C, CHR 0xE7, CHR 0xB4, CHR 0xA2, CHR 0xE7, CHR 0xBB, CHR 0x93,
      CHR 0xE6, CHR 0x9E, CHR 0x9C, CHR 0x28, CHR 0xE5, CHR 0x85, CHR 0xB1]"

definition header_after :: string where
  "header_after = [CHR 0xE6, CHR 0x9D, CHR 0xA1, CHR 0x29, CHR 0x3A, CHR 0x0A]"

definition header_line :: "int \<Rightarrow> string" where
  "header_line n = header_before @ Sprintf_d n @ header_after"

fun fofa_lines :: "string \<Rightarrow> string list list \<Rightarrow> string" where
  "fofa_lines output [] = output"
| "fofa_lines output (item # items) =
     fofa_lines (output @ Join item '' | '' @ [CHR 0x0A]) items"

definition fofa_report :: "fofa_SearchResult \<Rightarrow> string" where
  "fofa_report result =
     fofa_lines (header_line (int (length (fr_Results result)))) (fr_Results result)"

text \<open>The handler of the fofa_search tool, lines 102-126.\<close>

definition fofa_search ::
  "(string \<Rightarrow> fofa_SearchResult exchange) \<Rightarrow> string \<Rightarrow> string \<Rightarrow> FofaSearchArguments
     \<Rightarrow> tool_result" where
  "fofa_search net email key arguments0 =
     (let arguments = fofa_defaults arguments0;
          client = NewFofaClient email key
      in case FofaClient_Search net client (fa_Query arguments) (fa_Page arguments)
                (fa_Size arguments) (fa_Fields arguments) of
           Inl err \<Rightarrow> Fails err
         | Inr result \<Rightarrow>
             if fr_Error result then Fails (Errorf_error (Errorf (fr_ErrMsg result)))
             else ToolResponse (fofa_report result))"

subsection \<open>The hunter server (source file part_000)\<close>

record HunterClient =
  hc_APIKey :: string
  hc_BaseURL :: string

definition NewHunterClient :: "string \<Rightarrow> HunterClient" where
  "NewHunterClient apiKey =
     \<lparr>hc_APIKey = apiKey, hc_BaseURL = ''https://hunter.qianxin.com/openApi/search''\<rparr>"

record ResultData =
  rd_Total :: int
  rd_Time :: int
  rd_Arr :: "go_value list"
  rd_ConsumeQuota :: string
  rd_RestQuota :: string

text \<open>\<open>Data\<close> is a pointer: \<open>None\<close> is the nil pointer.\<close>

record hunter_SearchResult =
  hr_Code :: int
  hr_Message :: string
  hr_Data :: "ResultData option"

definition base64URLEncode :: "string \<Rightarrow> string" where
  "base64URLEncode s = EncodeToString encodeURL s"

text \<open>Lines 48-60: five parameters always, the two time bounds only when not empty.\<close>

definition hunter_params ::
  "HunterClient \<Rightarrow> string \<Rightarrow> int \<Rightarrow> int \<Rightarrow> int \<Rightarrow> string \<Rightarrow> string \<Rightarrow> Values" where
  "hunter_params hc query page size' isWeb startTime endTime =
     (let params = [];
          params = Values_Add params ''api-key'' (hc_APIKey hc);
          params = Values_Add params ''search'' (base64URLEncode query);
          params = Values_Add params ''page'' (Sprintf_d page);
          params = Values_Add params ''page_size'' (Sprintf_d size');
          params = Values_Add params ''is_web'' (Sprintf_d isWeb);
          params = (if startTime \<noteq> [] then Values_Add params ''start_time'' startTime
                    else params);
          params = (if endTime \<noteq> [] then Values_Add params ''end_time'' endTime else params)
      in params)"

definition hunter_url ::
  "HunterClient \<Rightarrow> string \<Rightarrow> int \<Rightarrow> int \<Rightarrow> int \<Rightarrow> string \<Rightarrow> string \<Rightarrow> string" where
  "hunter_url hc query page size' isWeb startTime endTime =
     hc_BaseURL hc @ ''?'' @
     Values_Encode (hunter_params hc query page size' isWeb startTime endTime)"

text \<open>
  \<open>HunterClient.Search\<close>, lines 47-84. The status code of the response is never read;
  the \<open>code\<close> member of the decoded body is.
\<close>

definition HunterClient_Search ::
  "(string \<Rightarrow> hunter_SearchResult exchange) \<Rightarrow> HunterClient \<Rightarrow> string \<Rightarrow> int \<Rightarrow> int \<Rightarrow> int
     \<Rightarrow> string \<Rightarrow> string \<Rightarrow> go_error + hunter_SearchResult" where
  "HunterClient_Search net hc query page size' isWeb startTime endTime =
     (case net (hunter_url hc query page size' isWeb startTime endTime) of
        Get_fails err \<Rightarrow> Inl (Get_error err)
      | Response status b \<Rightarrow>
          (case b of
             ReadAll_fails err \<Rightarrow> Inl (ReadAll_error err)
           | Unmarshal_fails err \<Rightarrow> Inl (Unmarshal_error err)
           | Unmarshal_fills result \<Rightarrow>
               if hr_Code result \<noteq> 200 then Inl (Errorf_error (Errorf (hr_Message result)))
               else Inr result))"

text \<open>
  The record lines, lines 132-136: each item is asserted to be a map (a panic when it
  is not), and three of its entries are printed; a missing key reads as nil. The
  format is \<open>"IP: %s | \<dots>: %v | \<dots>: %s\n"\<close>, its Chinese labels as UTF-8 bytes.
\<close>

definition map_index :: "(string \<times> go_value) list \<Rightarrow> string \<Rightarrow> go_value" where
  "map_index m key = (case map_of m key of None \<Rightarrow> V_nil | Some v \<Rightarrow> v)"

definition label_port :: string where
  "label_port =
     [CHR 0x20, CHR 0x7C, CHR 0x20, CHR 0xE7, CHR 0xAB, CHR 0xAF, CHR 0xE5, CHR 0x8F, CHR 0xA3,
      CHR 0x3A, CHR 0x20]"

definition label_title :: string where
  "label_title =
     [CHR 0x20, CHR 0x7C, CHR 0x20, CHR 0xE6, CHR 0xA0, CHR 0x87, CHR 0xE9, CHR 0xA2, CHR 0x98,
      CHR 0x3A, CHR 0x20]"

definition hunter_line :: "printer \<Rightarrow> (string \<times> go_value) list \<Rightarrow> string" where
  "hunter_line pr itemMap =
     ''IP: '' @ operand_s pr (map_index itemMap ''ip'') @
     label_port @ operand_v pr (map_index itemMap ''port'') @
     label_title @ operand_s pr (map_index itemMap ''web_title'') @ [CHR 0x0A]"

fun hunter_lines :: "printer \<Rightarrow> string \<Rightarrow> go_value list \<Rightarrow> go_panic + string" where
  "hunter_lines pr output [] = Inr output"
| "hunter_lines pr output (item # items) =
     (case item of
        V_map itemMap \<Rightarrow> hunter_lines pr (output @ hunter_line pr itemMap) items
      | _ \<Rightarrow> Inl interface_conversion)"

text \<open>
  The report, lines 130-138. \<open>result.Data.Total\<close> is read first: with a nil \<open>Data\<close>
  the handler panics before anything is written.
\<close>

definition hunter_report :: "printer \<Rightarrow> hunter_SearchResult \<Rightarrow> tool_result" where
  "hunter_report pr result =
     (case hr_Data result of
        None \<Rightarrow> Panics nil_dereference
      | Some data \<Rightarrow>
          (case hunter_lines pr (header_line (rd_Total data)) (rd_Arr data) of
             Inl p \<Rightarrow> Panics p
           | Inr output \<Rightarrow> ToolResponse output))"

text \<open>The handler of the hunter_search tool, lines 112-139.\<close>

definition hunter_search ::
  "printer \<Rightarrow> (string \<Rightarrow> hunter_SearchResult exchange) \<Rightarrow> string \<Rightarrow> HunterSearchArguments
     \<Rightarrow> tool_result" where
  "hunter_search pr net apiKey arguments0 =
     (let arguments = hunter_defaults arguments0;
          client = NewHunterClient apiKey
      in case HunterClient_Search net client (ha_Query arguments) (ha_Page arguments)
                (ha_Size arguments) (ha_IsWeb arguments) (ha_StartTime arguments)
                (ha_EndTime arguments) of
           Inl err \<Rightarrow> Fails err
         | Inr result \<Rightarrow> hunter_report pr result)"

subsection \<open>Auxiliary definitions and sample inputs\<close>

text \<open>The 24-bit value the encoder makes of three bytes.\<close>

definition triple :: "char \<Rightarrow> char \<Rightarrow> char \<Rightarrow> nat" where
  "triple s0 s1 s2 = push_bit 16 (of_char s0) OR push_bit 8 (of_char s1) OR of_char s2"

text \<open>Whether the type assertion \<open>item.(map[string]interface{})\<close> succeeds.\<close>

fun is_map :: "go_value \<Rightarrow> bool" where
  "is_map (V_map m) = True"
| "is_map v = False"

text \<open>Arguments with nothing left to default, and a printer for the sample runs.\<close>

definition fofa_args :: FofaSearchArguments where
  "fofa_args = \<lparr>fa_Query = ''port=80'', fa_Page = 1, fa_Size = 10, fa_Fields = ''ip''\<rparr>"

definition hunter_args :: HunterSearchArguments where
  "hunter_args =
     \<lparr>ha_Query = ''ip=1.1.1.1'', ha_Page = 1, ha_Size = 10, ha_IsWeb = 1,
      ha_StartTime = [], ha_EndTime = []\<rparr>"

definition plain_printer :: printer where
  "plain_printer = \<lparr>print_s = (\<lambda>v. ''?''), print_v = (\<lambda>v. ''?'')\<rparr>"

text \<open>
  Decoded bodies: a FOFA body \<open>{"error": true, "errmsg": msg}\<close>, a FOFA body
  \<open>{"error": false, "results": []}\<close>, a Hunter body \<open>{"code": c, "message": msg}\<close>
  (no \<open>data\<close> member, so the pointer stays nil), and a Hunter body with code 200 and a
  \<open>data\<close> object holding a total and an array.
\<close>

definition fofa_failure :: "string \<Rightarrow> fofa_SearchResult" where
  "fofa_failure msg =
     \<lparr>fr_Error = True, fr_ErrMsg = msg, fr_Mode = [], fr_Page = 0, fr_Size = 0,
      fr_Results = []\<rparr>"

definition fofa_empty :: fofa_SearchResult where
  "fofa_empty =
     \<lparr>fr_Error = False, fr_ErrMsg = [], fr_Mode = [], fr_Page = 0, fr_Size = 0,
      fr_Results = []\<rparr>"

definition hunter_no_data :: "int \<Rightarrow> string \<Rightarrow> hunter_SearchResult" where
  "hunter_no_data code msg = \<lparr>hr_Code = code, hr_Message = msg, hr_Data = None\<rparr>"

definition page_data :: "int \<Rightarrow> go_value list \<Rightarrow> ResultData" where
  "page_data n arr =
     \<lparr>rd_Total = n, rd_Time = 3, rd_Arr = arr, rd_ConsumeQuota = [], rd_RestQuota = []\<rparr>"

definition hunter_page :: "int \<Rightarrow> go_value list \<Rightarrow> hunter_SearchResult" where
  "hunter_page n arr =
     \<lparr>hr_Code = 200, hr_Message = ''success'', hr_Data = Some (page_data n arr)\<rparr>"

text \<open>
  Two \<open>data.arr\<close> arrays: one whose second element is a string, one of objects only
  (the port is the float64 80).
\<close>

definition mixed_arr :: "go_value list" where
  "mixed_arr = [V_map [(''ip'', V_string ''1.1.1.1'')], V_string ''1.1.1.2'']"

definition maps_arr :: "go_value list" where
  "maps_arr =
     [V_map [(''ip'', V_string ''1.1.1.1''), (''port'', V_float64 0x4054000000000000),
             (''web_title'', V_string ''home'')]]"

section \<open>Properties\<close>

subsection \<open>Defaulting\<close>





lemma hunter_defaults_IsWeb:
  "ha_IsWeb (hunter_defaults a) = (if ha_IsWeb a = 0 then 1 else ha_IsWeb a)"
  by (simp add: hunter_defaults_def Let_def)



text \<open>
  C8: the defaulting step is idempotent, for both tools: a second pass finds no zero
  left in the fields it tests.
\<close>

theorem defaults_idempotent:
  "fofa_defaults (fofa_defaults a) = fofa_defaults a \<and>
   hunter_defaults (hunter_defaults h) = hunter_defaults h"
  by (simp add: fofa_defaults_def hunter_defaults_def Let_def)

subsection \<open>Query encoding\<close>

lemma mask6: "(63::nat) = mask 6"
  by (simp add: mask_eq_exp_minus_1)

lemma quantum_split:
  fixes v :: nat
  assumes "v < 2 ^ 24"
  shows "quantum (drop_bit 18 v AND 0x3F) (drop_bit 12 v AND 0x3F) (drop_bit 6 v AND 0x3F)
           (v AND 0x3F) = v"
proof -
  from assms have t: "take_bit 24 v = v" by (simp add: take_bit_nat_eq_self_iff)
  have "quantum (drop_bit 18 v AND 0x3F) (drop_bit 12 v AND 0x3F) (drop_bit 6 v AND 0x3F)
          (v AND 0x3F) = take_bit 24 v"
    unfolding quantum_def mask6
  proof (rule bit_eqI)
    fix n
    show "bit (push_bit 18 (drop_bit 18 v AND mask 6) OR push_bit 12 (drop_bit 12 v AND mask 6) OR
               push_bit 6 (drop_bit 6 v AND mask 6) OR (v AND mask 6)) n = bit (take_bit 24 v) n"
      by (cases "n < 6"; cases "n < 12"; cases "n < 18"; cases "n < 24")
        (auto simp add: bit_simps)
  qed
  with t show ?thesis by simp
qed

lemma decodeMap_nth:
  "distinct enc \<Longrightarrow> i < length enc \<Longrightarrow> decodeMap enc (enc ! i) = Some i"
proof (induction enc arbitrary: i)
  case Nil
  then show ?case by simp
next
  case (Cons e enc)
  show ?case
  proof (cases i)
    case 0
    then show ?thesis by simp
  next
    case (Suc j)
    with Cons.prems have "enc ! j \<in> set enc" and "e \<notin> set enc" by auto
    then have "e \<noteq> enc ! j" by auto
    with Cons Suc show ?thesis by simp
  qed
qed

lemma sextet_less: "(x AND 0x3F) < (64::nat)"
proof -
  have "x AND 63 = take_bit 6 x" by (simp add: mask6 take_bit_eq_mask)
  then show ?thesis using take_bit_nat_less_exp [of 6 x] by simp
qed

lemma bit_of_char_less8: "bit (of_char c :: nat) n \<Longrightarrow> n < 8"
proof (rule ccontr)
  assume b: "bit (of_char c :: nat) n" and "\<not> n < 8"
  then have n: "8 \<le> n" by simp
  have "take_bit 8 (of_char c :: nat) = of_char c"
    by (simp add: take_bit_eq_mod)
  then have "bit (of_char c :: nat) n = bit (take_bit 8 (of_char c :: nat)) n" by simp
  also have "\<dots> = False" using n by (simp add: bit_simps)
  finally show False using b by simp
qed

lemma triple_less: "triple s0 s1 s2 < 2 ^ 24"
proof -
  have "take_bit 24 (triple s0 s1 s2) = triple s0 s1 s2"
    unfolding triple_def
    apply (rule bit_eqI)
    subgoal for n
      by (cases "n < 24") (auto simp add: bit_simps dest: bit_of_char_less8)
    done
  then show ?thesis by (simp add: take_bit_nat_eq_self_iff)
qed

lemma triple_byte0: "char_of (drop_bit 16 (triple s0 s1 s2)) = s0"
  unfolding char_of_eq_iff triple_def
  apply (rule bit_eqI)
  subgoal for n
    by (cases "n < 8") (auto simp add: bit_simps dest: bit_of_char_less8)
  done

lemma triple_byte1: "char_of (drop_bit 8 (triple s0 s1 s2)) = s1"
  unfolding char_of_eq_iff triple_def
  apply (rule bit_eqI)
  subgoal for n
    by (cases "n < 8") (auto simp add: bit_simps dest: bit_of_char_less8)
  done

lemma triple_byte2: "char_of (triple s0 s1 s2) = s2"
  unfolding char_of_eq_iff triple_def
  apply (rule bit_eqI)
  subgoal for n
    by (cases "n < 8") (auto simp add: bit_simps dest: bit_of_char_less8)
  done

lemma triple_low_zero: "triple s0 s1 (CHR 0x00) AND 0x3F = 0"
  unfolding triple_def mask6
  apply (rule bit_eqI)
  subgoal for n
    by (cases "n < 6") (auto simp add: bit_simps)
  done

lemma triple_mid_zero: "drop_bit 6 (triple s0 (CHR 0x00) (CHR 0x00)) AND 0x3F = 0"
  unfolding triple_def mask6
  apply (rule bit_eqI)
  subgoal for n
    by (cases "n < 6") (auto simp add: bit_simps)
  done

lemma sextet_decodes:
  assumes "distinct enc" and "length enc = 64"
  shows "decodeMap enc (enc ! (x AND 0x3F)) = Some (x AND 0x3F)"
  using assms sextet_less [of x] by (simp add: decodeMap_nth)

lemma sextet_not_padding:
  assumes "length enc = 64" and "StdPadding \<notin> set enc"
  shows "enc ! (x AND 0x3F) \<noteq> StdPadding"
proof -
  have "enc ! (x AND 0x3F) \<in> set enc"
    using assms(1) sextet_less [of x] by (simp only: nth_mem)
  with assms(2) show ?thesis by metis
qed

lemma DecodeString_EncodeToString:
  "distinct enc \<Longrightarrow> length enc = 64 \<Longrightarrow> StdPadding \<notin> set enc \<Longrightarrow>
   DecodeString enc (EncodeToString enc src) = Some src"
proof (induction enc src rule: EncodeToString.induct)
  case (1 enc s0 s1 s2 src)
  define v where "v = triple s0 s1 s2"
  have v: "v < 2 ^ 24" unfolding v_def by (rule triple_less)
  have IH: "DecodeString enc (EncodeToString enc src) = Some src" using 1 by simp
  have e: "EncodeToString enc (s0 # s1 # s2 # src) =
      enc ! (drop_bit 18 v AND 0x3F) # enc ! (drop_bit 12 v AND 0x3F) #
      enc ! (drop_bit 6 v AND 0x3F) # enc ! (v AND 0x3F) # EncodeToString enc src"
    by (simp add: v_def triple_def Let_def)
  show ?case
    unfolding e using "1.prems"
    by (simp add: sextet_decodes sextet_not_padding IH quantum_split [OF v])
      (simp add: v_def triple_byte0 triple_byte1 triple_byte2)
next
  case (2 enc s0 s1)
  define v where "v = triple s0 s1 (CHR 0x00)"
  have v: "v < 2 ^ 24" unfolding v_def by (rule triple_less)
  have e: "EncodeToString enc [s0, s1] =
      [enc ! (drop_bit 18 v AND 0x3F), enc ! (drop_bit 12 v AND 0x3F),
       enc ! (drop_bit 6 v AND 0x3F), StdPadding]"
    by (simp add: v_def triple_def Let_def)
  have q: "quantum (drop_bit 18 v AND 0x3F) (drop_bit 12 v AND 0x3F) (drop_bit 6 v AND 0x3F) 0 = v"
    using quantum_split [OF v] by (simp add: v_def triple_low_zero)
  show ?case
    unfolding e using "2.prems"
    by (simp add: sextet_decodes sextet_not_padding q)
      (simp add: v_def triple_byte0 triple_byte1)
next
  case (3 enc s0)
  define v where "v = triple s0 (CHR 0x00) (CHR 0x00)"
  have v: "v < 2 ^ 24" unfolding v_def by (rule triple_less)
  have e: "EncodeToString enc [s0] =
      [enc ! (drop_bit 18 v AND 0x3F), enc ! (drop_bit 12 v AND 0x3F), StdPadding, StdPadding]"
    by (simp add: v_def triple_def Let_def)
  have q: "quantum (drop_bit 18 v AND 0x3F) (drop_bit 12 v AND 0x3F) 0 0 = v"
    using quantum_split [OF v] by (simp add: v_def triple_low_zero triple_mid_zero)
  show ?case
    unfolding e using "3.prems"
    by (simp add: sextet_decodes sextet_not_padding q)
      (simp add: v_def triple_byte0)
next
  case (4 enc)
  then show ?case by simp
qed

lemma encodeStd_alphabet:
  "distinct encodeStd \<and> length encodeStd = 64 \<and> StdPadding \<notin> set encodeStd"
  by (simp add: encodeStd_def StdPadding_def)

lemma encodeURL_alphabet:
  "distinct encodeURL \<and> length encodeURL = 64 \<and> StdPadding \<notin> set encodeURL"
  by (simp add: encodeURL_def StdPadding_def)

text \<open>
  C7: decoding the encoded query with the backend's own alphabet gives back the raw
  query, byte for byte: standard base64 for FOFA's \<open>qbase64\<close>, URL-safe base64 for
  Hunter's \<open>search\<close>.
\<close>

theorem query_encoding_round_trip:
  "DecodeString encodeStd (base64Encode query) = Some query \<and>
   DecodeString encodeURL (base64URLEncode query) = Some query"
  using encodeStd_alphabet encodeURL_alphabet
  by (simp add: base64Encode_def base64URLEncode_def DecodeString_EncodeToString)

subsection \<open>Request URLs\<close>

lemma keys_Values_Add: "fst ` set (Values_Add v key val) = insert key (fst ` set v)"
  by (induction v key val rule: Values_Add.induct) auto

lemma hunter_params_keys:
  "fst ` set (hunter_params hc q p s w t1 t2) =
     {''api-key'', ''search'', ''page'', ''page_size'', ''is_web''} \<union>
     (if t1 \<noteq> [] then {''start_time''} else {}) \<union> (if t2 \<noteq> [] then {''end_time''} else {})"
  by (auto simp add: hunter_params_def Let_def keys_Values_Add)

lemma QueryEscape_keys:
  "QueryEscape ''api-key'' = ''api-key''" "QueryEscape ''search'' = ''search''"
  "QueryEscape ''page'' = ''page''" "QueryEscape ''page_size'' = ''page_size''"
  "QueryEscape ''is_web'' = ''is_web''" "QueryEscape ''qbase64'' = ''qbase64''"
  "QueryEscape ''email'' = ''email''" "QueryEscape ''key'' = ''key''"
  "QueryEscape ''size'' = ''size''" "QueryEscape ''fields'' = ''fields''"
  by (simp_all add: shouldEscape_def)

lemma hunter_keys_sorted:
  "sort_strings [''api-key'', ''search'', ''page'', ''page_size'', ''is_web''] =
     [''api-key'', ''is_web'', ''page'', ''page_size'', ''search'']"
  by (simp add: sort_strings_def)

lemma fofa_keys_sorted:
  "sort_strings [''qbase64'', ''email'', ''key'', ''page'', ''size'', ''fields''] =
     [''email'', ''fields'', ''key'', ''page'', ''qbase64'', ''size'']"
  by (simp add: sort_strings_def)

lemma hunter_url_unbounded:
  "hunter_url hc q p s w [] [] =
     hc_BaseURL hc @ ''?api-key='' @ QueryEscape (hc_APIKey hc) @
     ''&is_web='' @ QueryEscape (Sprintf_d w) @ ''&page='' @ QueryEscape (Sprintf_d p) @
     ''&page_size='' @ QueryEscape (Sprintf_d s) @
     ''&search='' @ QueryEscape (base64URLEncode q)"
  by (simp add: hunter_url_def hunter_params_def Values_Encode_def Let_def hunter_keys_sorted
      QueryEscape_keys del: QueryEscape.simps)

lemma fofa_url_explicit:
  "fofa_url fc q p s f =
     fc_BaseURL fc @ ''/search/all?email='' @ QueryEscape (fc_Email fc) @
     ''&fields='' @ QueryEscape f @ ''&key='' @ QueryEscape (fc_Key fc) @
     ''&page='' @ QueryEscape (Sprintf_d p) @ ''&qbase64='' @ QueryEscape (base64Encode q) @
     ''&size='' @ QueryEscape (Sprintf_d s)"
  by (simp add: fofa_url_def fofa_params_def Values_Encode_def Let_def fofa_keys_sorted
      QueryEscape_keys del: QueryEscape.simps)

text \<open>
  C6, as the code has it. The hunter client sends \<open>start_time\<close> exactly when the start
  bound is not empty and \<open>end_time\<close> exactly when the end bound is not empty; with both
  unset the URL holds the five other parameters and nothing else. The FOFA client has
  no optional parameter: \<open>fields\<close> is always added, with whatever value it has, so the
  URL always holds \<open>fields=\<close> followed by the escaped value.
\<close>

theorem optional_parameters_in_request:
  "(''start_time'' \<in> fst ` set (hunter_params hc q p s w t1 t2) \<longleftrightarrow> t1 \<noteq> []) \<and>
   (''end_time'' \<in> fst ` set (hunter_params hc q p s w t1 t2) \<longleftrightarrow> t2 \<noteq> []) \<and>
   hunter_url hc q p s w [] [] =
     hc_BaseURL hc @ ''?api-key='' @ QueryEscape (hc_APIKey hc) @
     ''&is_web='' @ QueryEscape (Sprintf_d w) @ ''&page='' @ QueryEscape (Sprintf_d p) @
     ''&page_size='' @ QueryEscape (Sprintf_d s) @
     ''&search='' @ QueryEscape (base64URLEncode q) \<and>
   Values_get (fofa_params fc q p s f) ''fields'' = [f] \<and>
   fofa_url fc q p s f =
     fc_BaseURL fc @ ''/search/all?email='' @ QueryEscape (fc_Email fc) @
     ''&fields='' @ QueryEscape f @ ''&key='' @ QueryEscape (fc_Key fc) @
     ''&page='' @ QueryEscape (Sprintf_d p) @ ''&qbase64='' @ QueryEscape (base64Encode q) @
     ''&size='' @ QueryEscape (Sprintf_d s)"
proof -
  have "Values_get (fofa_params fc q p s f) ''fields'' = [f]"
    by (simp add: fofa_params_def Let_def)
  then show ?thesis
    by (simp only: hunter_params_keys hunter_url_unbounded fofa_url_explicit) simp
qed

text \<open>
  C6 as the spec words it fails for the field selector: a fofa_search call with an
  empty \<open>fields\<close> argument sends \<open>fields=\<close> with an empty value.
\<close>

theorem empty_fields_sent_counterexample:
  "Values_get (fofa_params (NewFofaClient ''a@b.c'' ''K'') ''port=80'' 1 50 []) ''fields'' = [[]] \<and>
   fofa_url (NewFofaClient ''a@b.c'' ''K'') ''port=80'' 1 50 [] =
     ''https://fofa.info/api/v1/search/all?email=a%40b.c&fields=&key=K&page=1&qbase64=cG9ydD04MA%3D%3D&size=50''"
proof -
  have 1: "Values_get (fofa_params (NewFofaClient ''a@b.c'' ''K'') ''port=80'' 1 50 []) ''fields'' = [[]]"
    by (simp add: fofa_params_def Let_def)
  have 2: "base64Encode ''port=80'' = ''cG9ydD04MA==''"
    by (simp add: base64Encode_def encodeStd_def StdPadding_def Let_def)
  have 3: "Sprintf_d 1 = ''1''" "Sprintf_d 50 = ''50''"
    by (simp_all add: Sprintf_d_def decimal.simps digit_def)
  have 4: "fofa_url (NewFofaClient ''a@b.c'' ''K'') ''port=80'' 1 50 [] =
     ''https://fofa.info/api/v1/search/all?email=a%40b.c&fields=&key=K&page=1&qbase64=cG9ydD04MA%3D%3D&size=50''"
    unfolding fofa_url_explicit 2 3
    by (simp add: NewFofaClient_def shouldEscape_def upperhex_def)
  from 1 4 show ?thesis by simp
qed

subsection \<open>Errors\<close>

lemma doPrintf_plain: "CHR ''%'' \<notin> set format \<Longrightarrow> doPrintf format = format"
  by (induction format) auto

lemma Errorf_plain: "CHR ''%'' \<notin> set format \<Longrightarrow> Errorf format = format"
  by (simp add: Errorf_def doPrintf_plain)

lemma fofa_search_backend_failure:
  "fr_Error r \<Longrightarrow>
   fofa_search (\<lambda>url. Response status (Unmarshal_fills r)) email key a =
     Fails (Errorf_error (Errorf (fr_ErrMsg r)))"
  by (simp add: fofa_search_def FofaClient_Search_def Let_def)

lemma hunter_search_backend_failure:
  "hr_Code r \<noteq> 200 \<Longrightarrow>
   hunter_search pr (\<lambda>url. Response status (Unmarshal_fills r)) apiKey a =
     Fails (Errorf_error (Errorf (hr_Message r)))"
  by (simp add: hunter_search_def HunterClient_Search_def Let_def)

text \<open>
  What holds of the failure paths: a transport error and a decode error are returned as
  they are, a backend-reported failure is returned as an error and never as a report,
  and its text is the backend's message whenever that message holds no \<open>%\<close>.
\<close>

lemma library_errors_passed_on:
  "fofa_search (\<lambda>url. Get_fails m) email key a = Fails (Get_error m) \<and>
   fofa_search (\<lambda>url. Response status (ReadAll_fails m)) email key a = Fails (ReadAll_error m) \<and>
   fofa_search (\<lambda>url. Response status (Unmarshal_fails m)) email key a =
     Fails (Unmarshal_error m) \<and>
   hunter_search pr (\<lambda>url. Get_fails m) apiKey b = Fails (Get_error m) \<and>
   hunter_search pr (\<lambda>url. Response status (ReadAll_fails m)) apiKey b =
     Fails (ReadAll_error m) \<and>
   hunter_search pr (\<lambda>url. Response status (Unmarshal_fails m)) apiKey b =
     Fails (Unmarshal_error m)"
  by (simp add: fofa_search_def FofaClient_Search_def hunter_search_def
      HunterClient_Search_def Let_def)

text \<open>
  A backend-reported failure (FOFA: the error flag; Hunter: a code other than 200) makes
  the handler return an error built by \<open>fmt.Errorf\<close> from the backend's message,
  never a report; the error text is the message itself when the message holds no \<open>%\<close>.
\<close>

theorem backend_failure_is_error:
  assumes "fr_Error r" and "hr_Code h \<noteq> 200"
  shows "fofa_search (\<lambda>url. Response status (Unmarshal_fills r)) email key a =
           Fails (Errorf_error (Errorf (fr_ErrMsg r))) \<and>
         hunter_search pr (\<lambda>url. Response status (Unmarshal_fills h)) apiKey b =
           Fails (Errorf_error (Errorf (hr_Message h))) \<and>
         (CHR ''%'' \<notin> set m \<longrightarrow> Errorf m = m)"
  using assms
  by (simp add: fofa_search_backend_failure hunter_search_backend_failure Errorf_plain)

theorem backend_failure_is_error_witness:
  "fr_Error (fofa_failure ''quota exceeded'') \<and>
   hr_Code (hunter_no_data 401 ''invalid api-key'') \<noteq> 200 \<and>
   fofa_search (\<lambda>url. Response 200 (Unmarshal_fills (fofa_failure ''quota exceeded'')))
     ''a@b.c'' ''K'' fofa_args = Fails (Errorf_error ''quota exceeded'') \<and>
   hunter_search plain_printer
     (\<lambda>url. Response 200 (Unmarshal_fills (hunter_no_data 401 ''invalid api-key''))) ''K''
     hunter_args = Fails (Errorf_error ''invalid api-key'')"
proof -
  have h: "fr_Error (fofa_failure ''quota exceeded'')"
    "hr_Code (hunter_no_data 401 ''invalid api-key'') \<noteq> 200"
    by (simp_all add: fofa_failure_def hunter_no_data_def)
  have m: "fr_ErrMsg (fofa_failure ''quota exceeded'') = ''quota exceeded''"
    "hr_Message (hunter_no_data 401 ''invalid api-key'') = ''invalid api-key''"
    by (simp_all add: fofa_failure_def hunter_no_data_def)
  have e: "Errorf ''quota exceeded'' = ''quota exceeded''"
    "Errorf ''invalid api-key'' = ''invalid api-key''"
    using backend_failure_is_error [OF h, of 200 "''a@b.c''" "''K''" fofa_args plain_printer
        "''K''" hunter_args "''quota exceeded''"]
      backend_failure_is_error [OF h, of 200 "''a@b.c''" "''K''" fofa_args plain_printer
        "''K''" hunter_args "''invalid api-key''"]
    by simp_all
  show ?thesis
    using h backend_failure_is_error [OF h, of 200 "''a@b.c''" "''K''" fofa_args plain_printer
        "''K''" hunter_args "''quota exceeded''"]
    by (simp add: m e)
qed

lemma Errorf_quota: "Errorf ''100% quota used'' = ''100%!q(MISSING)uota used''"
  by code_simp

lemma Errorf_limit: "Errorf ''rate limit reached: 100%'' = ''rate limit reached: 100%!(NOVERB)''"
  by code_simp

text \<open>
  C2 at a FOFA reply \<open>{"error": true, "errmsg": "100% quota used"}\<close>. The handler does
  return an error and no report, but \<open>fmt.Errorf\<close> reads the message as a format
  string: the space is taken as a flag and \<open>q\<close> as a verb with no operand, so the error
  text is not the backend's message.
\<close>

theorem fofa_error_message_rewritten:
  "fofa_search (\<lambda>url. Response 200 (Unmarshal_fills (fofa_failure ''100% quota used'')))
     ''a@b.c'' ''K'' fofa_args =
   Fails (Errorf_error ''100%!q(MISSING)uota used'')"
  by (simp add: fofa_search_backend_failure fofa_failure_def Errorf_quota)

text \<open>
  C4 at a Hunter reply \<open>{"code": 429, "message": "rate limit reached: 100%"}\<close>: the
  error text of the invocation has \<open>!(NOVERB)\<close> appended, so it is not the remote
  message character for character.
\<close>

theorem hunter_error_message_rewritten:
  "hunter_search pr
     (\<lambda>url. Response 200 (Unmarshal_fills (hunter_no_data 429 ''rate limit reached: 100%'')))
     ''K'' hunter_args =
   Fails (Errorf_error ''rate limit reached: 100%!(NOVERB)'')"
  by (simp add: hunter_search_backend_failure hunter_no_data_def Errorf_limit)

subsection \<open>Status codes\<close>



subsection \<open>Reports\<close>

lemma digit_not_newline: "d < 10 \<Longrightarrow> digit d \<noteq> CHR 0x0A"
proof -
  assume "d < 10"
  then have "d \<in> {0, 1, 2, 3, 4, 5, 6, 7, 8, 9}" by auto
  then show ?thesis by (auto simp add: digit_def)
qed

lemma decimal_no_newline: "CHR 0x0A \<notin> set (decimal n)"
proof (induction n rule: decimal.induct)
  case (1 n)
  show ?case
  proof (cases "n < 10")
    case True
    then show ?thesis using digit_not_newline [of n] by (simp add: decimal.simps [of n])
  next
    case False
    have "n mod 10 < 10" by simp
    then have "digit (n mod 10) \<noteq> CHR 0x0A" by (rule digit_not_newline)
    with False 1 show ?thesis by (auto simp add: decimal.simps [of n])
  qed
qed

lemma Sprintf_d_no_newline: "CHR 0x0A \<notin> set (Sprintf_d n)"
  using decimal_no_newline by (simp add: Sprintf_d_def)

lemma header_line_one_line:
  "\<exists>line. header_line n = line @ [CHR 0x0A] \<and> CHR 0x0A \<notin> set line"
proof -
  have "header_line n =
      (header_before @ Sprintf_d n @ [CHR 0xE6, CHR 0x9D, CHR 0xA1, CHR 0x29, CHR 0x3A]) @ [CHR 0x0A]"
    by (simp add: header_line_def header_after_def)
  moreover have "CHR 0x0A \<notin> set (header_before @ Sprintf_d n @
      [CHR 0xE6, CHR 0x9D, CHR 0xA1, CHR 0x29, CHR 0x3A])"
    using Sprintf_d_no_newline [of n] by (simp add: header_before_def)
  ultimately show ?thesis by blast
qed

lemma header_7_not_0: "header_line 7 \<noteq> header_line 0"
  by (simp add: header_line_def Sprintf_d_def decimal.simps digit_def)

text \<open>
  C5, as the code has it. With no records the output is the header line alone (one
  line, ended by its newline) for both tools. The FOFA header counts the rows of the
  reply, so it states 0. The Hunter header states \<open>data.total\<close>, the total the backend
  reports for the whole query, whatever the length of the page.
\<close>

theorem empty_records_report:
  assumes "\<not> fr_Error r" and "fr_Results r = []"
    and "hr_Code h = 200" and "hr_Data h = Some d" and "rd_Arr d = []"
  shows "fofa_search (\<lambda>url. Response status (Unmarshal_fills r)) email key a =
           ToolResponse (header_line 0) \<and>
         hunter_search pr (\<lambda>url. Response status (Unmarshal_fills h)) apiKey b =
           ToolResponse (header_line (rd_Total d)) \<and>
         (\<exists>line. header_line n = line @ [CHR 0x0A] \<and> CHR 0x0A \<notin> set line)"
  using assms header_line_one_line [of n]
  by (simp add: fofa_search_def FofaClient_Search_def fofa_report_def hunter_search_def
      HunterClient_Search_def hunter_report_def Let_def)

theorem empty_records_report_witness:
  "\<not> fr_Error fofa_empty \<and> fr_Results fofa_empty = [] \<and>
   hr_Code (hunter_page 0 []) = 200 \<and> hr_Data (hunter_page 0 []) = Some (page_data 0 []) \<and>
   rd_Arr (page_data 0 []) = [] \<and>
   fofa_search (\<lambda>url. Response 200 (Unmarshal_fills fofa_empty)) ''a@b.c'' ''K'' fofa_args =
     ToolResponse (header_line 0) \<and>
   hunter_search plain_printer (\<lambda>url. Response 200 (Unmarshal_fills (hunter_page 0 []))) ''K''
     hunter_args = ToolResponse (header_line 0)"
proof -
  have h: "\<not> fr_Error fofa_empty" "fr_Results fofa_empty = []"
    "hr_Code (hunter_page 0 []) = 200" "hr_Data (hunter_page 0 []) = Some (page_data 0 [])"
    "rd_Arr (page_data 0 []) = []"
    by (simp_all add: fofa_empty_def hunter_page_def page_data_def)
  have t: "rd_Total (page_data 0 []) = 0" by (simp add: page_data_def)
  show ?thesis
    using h empty_records_report [OF h, of 200 "''a@b.c''" "''K''" fofa_args plain_printer
        "''K''" hunter_args 0]
    by (simp add: t)
qed

text \<open>
  C5 as the spec words it fails for Hunter: a reply with total 7 and an empty page
  gives a header that states 7, not 0.
\<close>

theorem empty_records_count_counterexample:
  "hr_Code (hunter_page 7 []) = 200 \<and> hr_Data (hunter_page 7 []) = Some (page_data 7 []) \<and>
   rd_Arr (page_data 7 []) = [] \<and>
   hunter_search plain_printer (\<lambda>url. Response 200 (Unmarshal_fills (hunter_page 7 []))) ''K''
     hunter_args = ToolResponse (header_line 7) \<and>
   header_line 7 \<noteq> header_line 0"
  using header_7_not_0
  by (simp add: hunter_page_def page_data_def hunter_search_def HunterClient_Search_def
      hunter_report_def Let_def)

subsection \<open>Panics of the hunter_search handler\<close>

text \<open>
  C9: a reply that decodes with code 200 and a nil \<open>Data\<close> pointer (which is how
  \<open>json.Unmarshal\<close> leaves the field when the \<open>data\<close> member is missing or null) is
  returned by \<open>Search\<close> as a success, and the handler then panics on \<open>result.Data.Total\<close>
  instead of returning an error.
\<close>

theorem nil_data_panics:
  assumes "hr_Code r = 200" and "hr_Data r = None"
  shows "HunterClient_Search (\<lambda>url. Response status (Unmarshal_fills r)) hc q p s w t1 t2 =
           Inr r \<and>
         hunter_search pr (\<lambda>url. Response status (Unmarshal_fills r)) apiKey a =
           Panics nil_dereference"
  using assms
  by (simp add: hunter_search_def HunterClient_Search_def hunter_report_def Let_def)

theorem nil_data_panics_witness:
  "hr_Code (hunter_no_data 200 ''success'') = 200 \<and>
   hr_Data (hunter_no_data 200 ''success'') = None \<and>
   HunterClient_Search (\<lambda>url. Response 200 (Unmarshal_fills (hunter_no_data 200 ''success'')))
     (NewHunterClient ''K'') ''ip=1.1.1.1'' 1 10 1 [] [] =
     Inr (hunter_no_data 200 ''success'') \<and>
   hunter_search plain_printer
     (\<lambda>url. Response 200 (Unmarshal_fills (hunter_no_data 200 ''success''))) ''K'' hunter_args =
     Panics nil_dereference"
proof -
  have h: "hr_Code (hunter_no_data 200 ''success'') = 200"
    "hr_Data (hunter_no_data 200 ''success'') = None"
    by (simp_all add: hunter_no_data_def)
  show ?thesis
    using h nil_data_panics [OF h, of 200 "NewHunterClient ''K''" "''ip=1.1.1.1''" 1 10 1 "[]"
        "[]" plain_printer "''K''" hunter_args]
    by simp
qed

lemma hunter_lines_panics:
  "\<exists>item \<in> set items. \<not> is_map item \<Longrightarrow> hunter_lines pr out items = Inl interface_conversion"
proof (induction items arbitrary: out)
  case Nil
  then show ?case by simp
next
  case (Cons item items)
  show ?case
  proof (cases item)
    case (V_map m)
    with Cons.prems have "\<exists>item \<in> set items. \<not> is_map item" by simp
    then show ?thesis using Cons.IH V_map by simp
  qed simp_all
qed

lemma hunter_lines_returns:
  "\<forall>item \<in> set items. is_map item \<Longrightarrow> \<exists>report. hunter_lines pr out items = Inr report"
proof (induction items arbitrary: out)
  case Nil
  then show ?case by simp
next
  case (Cons item items)
  from Cons.prems obtain m where m: "item = V_map m" by (cases item) auto
  from Cons.prems have "\<forall>item \<in> set items. is_map item" by simp
  then show ?case using Cons.IH m by simp
qed

text \<open>
  C10: for a reply with code 200 and a \<open>data\<close> object, the handler panics on the type
  assertion as soon as one element of \<open>data.arr\<close> is not a map (a string, a number, a
  bool, an array or null), and it returns a report when every element is a map.
\<close>

theorem non_object_item_panics:
  assumes "hr_Code r = 200" and "hr_Data r = Some d"
  shows "((\<exists>item \<in> set (rd_Arr d). \<not> is_map item) \<longrightarrow>
            hunter_search pr (\<lambda>url. Response status (Unmarshal_fills r)) apiKey a =
              Panics interface_conversion) \<and>
         ((\<forall>item \<in> set (rd_Arr d). is_map item) \<longrightarrow>
            (\<exists>report. hunter_search pr (\<lambda>url. Response status (Unmarshal_fills r)) apiKey a =
              ToolResponse report))"
proof (intro conjI impI)
  assume "\<exists>item \<in> set (rd_Arr d). \<not> is_map item"
  then have "hunter_lines pr (header_line (rd_Total d)) (rd_Arr d) = Inl interface_conversion"
    by (rule hunter_lines_panics)
  with assms show "hunter_search pr (\<lambda>url. Response status (Unmarshal_fills r)) apiKey a =
      Panics interface_conversion"
    by (simp add: hunter_search_def HunterClient_Search_def hunter_report_def Let_def)
next
  assume "\<forall>item \<in> set (rd_Arr d). is_map item"
  then obtain report where
    "hunter_lines pr (header_line (rd_Total d)) (rd_Arr d) = Inr report"
    using hunter_lines_returns by blast
  with assms show "\<exists>report. hunter_search pr (\<lambda>url. Response status (Unmarshal_fills r)) apiKey a =
      ToolResponse report"
    by (simp add: hunter_search_def HunterClient_Search_def hunter_report_def Let_def)
qed

theorem non_object_item_panics_witness:
  "hr_Code (hunter_page 2 mixed_arr) = 200 \<and>
   hr_Data (hunter_page 2 mixed_arr) = Some (page_data 2 mixed_arr) \<and>
   hunter_search plain_printer (\<lambda>url. Response 200 (Unmarshal_fills (hunter_page 2 mixed_arr)))
     ''K'' hunter_args = Panics interface_conversion \<and>
   (\<exists>report. hunter_search plain_printer
      (\<lambda>url. Response 200 (Unmarshal_fills (hunter_page 1 maps_arr))) ''K'' hunter_args =
      ToolResponse report)"
proof -
  have h: "hr_Code (hunter_page 2 mixed_arr) = 200"
    "hr_Data (hunter_page 2 mixed_arr) = Some (page_data 2 mixed_arr)"
    by (simp_all add: hunter_page_def)
  have g: "hr_Code (hunter_page 1 maps_arr) = 200"
    "hr_Data (hunter_page 1 maps_arr) = Some (page_data 1 maps_arr)"
    by (simp_all add: hunter_page_def)
  have 1: "\<exists>item \<in> set (rd_Arr (page_data 2 mixed_arr)). \<not> is_map item"
    by (simp add: page_data_def mixed_arr_def)
  have 2: "\<forall>item \<in> set (rd_Arr (page_data 1 maps_arr)). is_map item"
    by (simp add: page_data_def maps_arr_def)
  show ?thesis
    using h 1 2 non_object_item_panics [OF h, of plain_printer 200 "''K''" hunter_args]
      non_object_item_panics [OF g, of plain_printer 200 "''K''" hunter_args]
    by blast
qed

end
